theory Spec2Isabelle
  imports Main
begin

section \<open>JavaScript values of the backend\<close>

text \<open>
  The backend (\<^verbatim>\<open>apps/backend/src/index.ts\<close>) is one Hono application with two routes,
  \<^verbatim>\<open>GET /health\<close> and \<^verbatim>\<open>GET /api/events\<close>. An optional property of a JavaScript object
  is an \<open>option\<close>: \<open>None\<close> stands for \<^verbatim>\<open>undefined\<close> and \<^verbatim>\<open>null\<close>, which the code never
  tells apart (it only uses \<^verbatim>\<open>||\<close>, \<^verbatim>\<open>?.\<close> and \<^verbatim>\<open>!\<close> on them).
\<close>

type_synonym json = string
  \<comment> \<open>an opaque JSON payload (the body of an upstream error response)\<close>

definition truthy :: "string option \<Rightarrow> bool" where
  \<comment> \<open>a string-or-undefined value is falsy when it is undefined, null or the empty string\<close>
  "truthy v = (case v of None \<Rightarrow> False | Some s \<Rightarrow> s \<noteq> [])"

definition js_or :: "string option \<Rightarrow> string option \<Rightarrow> string option" where
  \<comment> \<open>\<^verbatim>\<open>a || b\<close>\<close>
  "js_or a b = (if truthy a then a else b)"

definition or_default :: "string option \<Rightarrow> string \<Rightarrow> string" where
  \<comment> \<open>\<^verbatim>\<open>a || 'literal'\<close>, whose result is always a string\<close>
  "or_default a d = (if truthy a then the a else d)"

subsection \<open>Thrown values\<close>

text \<open>
  The \<^verbatim>\<open>catch\<close> block looks at three things of the caught value: whether it is an
  \<^verbatim>\<open>Error\<close> (and then its \<^verbatim>\<open>message\<close>), whether it is an object that has a property
  \<^verbatim>\<open>response\<close>, and what \<^verbatim>\<open>response?.data\<close> is.
\<close>

datatype response_prop =
    Absent                     \<comment> \<open>the object has no property \<^verbatim>\<open>response\<close>\<close>
  | Nullish                    \<comment> \<open>it has one, holding \<^verbatim>\<open>undefined\<close> or \<^verbatim>\<open>null\<close>\<close>
  | Upstream "json option"     \<comment> \<open>it has one, whose \<^verbatim>\<open>data\<close> is the payload or \<^verbatim>\<open>undefined\<close>\<close>

datatype js_thrown =
    Thrown_Error string response_prop   \<comment> \<open>an instance of \<^verbatim>\<open>Error\<close> with its message\<close>
  | Thrown_Object response_prop         \<comment> \<open>another object\<close>
  | Thrown_Primitive                    \<comment> \<open>a string, a number, \<^verbatim>\<open>null\<close>, \<^verbatim>\<open>undefined\<close>\<close>

fun instanceof_Error :: "js_thrown \<Rightarrow> bool" where
  "instanceof_Error (Thrown_Error m r) = True"
| "instanceof_Error (Thrown_Object r) = False"
| "instanceof_Error Thrown_Primitive = False"

fun error_message :: "js_thrown \<Rightarrow> string" where
  "error_message (Thrown_Error m r) = m"
| "error_message (Thrown_Object r) = []"
| "error_message Thrown_Primitive = []"

fun has_response :: "js_thrown \<Rightarrow> bool" where
  \<comment> \<open>\<^verbatim>\<open>error && typeof error === 'object' && 'response' in error\<close>\<close>
  "has_response (Thrown_Error m r) = (r \<noteq> Absent)"
| "has_response (Thrown_Object r) = (r \<noteq> Absent)"
| "has_response Thrown_Primitive = False"

fun prop_data :: "response_prop \<Rightarrow> json option" where
  "prop_data Absent = None"
| "prop_data Nullish = None"
| "prop_data (Upstream d) = d"

fun response_data :: "js_thrown \<Rightarrow> json option" where
  \<comment> \<open>\<^verbatim>\<open>(error as any).response?.data\<close>\<close>
  "response_data (Thrown_Error m r) = prop_data r"
| "response_data (Thrown_Object r) = prop_data r"
| "response_data Thrown_Primitive = None"

section \<open>Dates\<close>

text \<open>
  A \<^verbatim>\<open>Date\<close> holds a time value, the milliseconds since 1970-01-01T00:00:00Z, or NaN
  (\<open>None\<close>) when it is invalid. The calendar arithmetic is the one of ECMAScript:
  \<open>days_from_civil\<close> is the day number of a proleptic Gregorian date (MakeDay on a
  month in range), \<open>civil_from_days\<close> its inverse (YearFromTime, MonthFromTime,
  DateFromTime). Months are 1 to 12 here and 0 to 11 in \<^verbatim>\<open>getMonth\<close> and \<^verbatim>\<open>setMonth\<close>.
  The local time zone is a fixed offset from UTC: daylight saving time is left out.
\<close>

type_synonym js_date = "int option"

definition msPerDay :: int where
  "msPerDay = 86400000"

definition days_from_civil :: "int \<Rightarrow> int \<Rightarrow> int \<Rightarrow> int" where
  "days_from_civil y m d =
     (let y' = (if m \<le> 2 then y - 1 else y);
          era = y' div 400;
          yoe = y' - era * 400;
          doy = (153 * (if m > 2 then m - 3 else m + 9) + 2) div 5 + d - 1;
          doe = yoe * 365 + yoe div 4 - yoe div 100 + doy
      in era * 146097 + doe - 719468)"

definition civil_from_days :: "int \<Rightarrow> int \<times> int \<times> int" where
  "civil_from_days z =
     (let z' = z + 719468;
          era = z' div 146097;
          doe = z' - era * 146097;
          yoe = (doe - doe div 1460 + doe div 36524 - doe div 146096) div 365;
          doy = doe - (365 * yoe + yoe div 4 - yoe div 100);
          mp = (5 * doy + 2) div 153;
          d = doy - (153 * mp + 2) div 5 + 1;
          m = (if mp < 10 then mp + 3 else mp - 9);
          y = yoe + era * 400
      in (if m \<le> 2 then y + 1 else y, m, d))"

definition Day :: "int \<Rightarrow> int" where
  "Day t = t div msPerDay"

definition TimeWithinDay :: "int \<Rightarrow> int" where
  "TimeWithinDay t = t mod msPerDay"

definition YearFromTime :: "int \<Rightarrow> int" where
  "YearFromTime t = fst (civil_from_days (Day t))"

definition MonthFromTime :: "int \<Rightarrow> int" where
  \<comment> \<open>0 for January to 11 for December\<close>
  "MonthFromTime t = fst (snd (civil_from_days (Day t))) - 1"

definition DateFromTime :: "int \<Rightarrow> int" where
  "DateFromTime t = snd (snd (civil_from_days (Day t)))"

definition MakeDay :: "int \<Rightarrow> int \<Rightarrow> int \<Rightarrow> int" where
  \<comment> \<open>the month may be out of 0..11 and the date out of the month: both carry over\<close>
  "MakeDay year month dt =
     days_from_civil (year + month div 12) (month mod 12 + 1) 1 + dt - 1"

definition MakeDate :: "int \<Rightarrow> int \<Rightarrow> int" where
  "MakeDate day time = day * msPerDay + time"

definition TimeClip :: "int \<Rightarrow> js_date" where
  "TimeClip t = (if \<bar>t\<bar> > 8640000000000000 then None else Some t)"

definition new_Date :: "int \<Rightarrow> js_date" where
  \<comment> \<open>\<^verbatim>\<open>new Date()\<close> when the system clock reads \<open>t\<close>\<close>
  "new_Date t = Some t"

definition getMonth :: "int \<Rightarrow> js_date \<Rightarrow> int option" where
  \<comment> \<open>the month of the local time; the local time zone is \<open>tza\<close> milliseconds east of UTC\<close>
  "getMonth tza dt = (case dt of None \<Rightarrow> None | Some t \<Rightarrow> Some (MonthFromTime (t + tza)))"

definition setMonth :: "int \<Rightarrow> js_date \<Rightarrow> int option \<Rightarrow> js_date" where
  \<comment> \<open>\<^verbatim>\<open>d.setMonth(month)\<close>: the new time value of \<open>d\<close>\<close>
  "setMonth tza dt month =
     (case dt of None \<Rightarrow> None
      | Some tv \<Rightarrow>
         (case month of None \<Rightarrow> None
          | Some m \<Rightarrow>
             (let t = tv + tza;
                  newDate = MakeDate (MakeDay (YearFromTime t) m (DateFromTime t)) (TimeWithinDay t)
              in TimeClip (newDate - tza))))"

definition digit :: "int \<Rightarrow> char" where
  "digit n = ''0123456789'' ! nat (n mod 10)"

primrec pad :: "nat \<Rightarrow> int \<Rightarrow> string" where
  \<comment> \<open>the last \<open>k\<close> decimal digits of a number that is not negative\<close>
  "pad 0 n = []"
| "pad (Suc k) n = pad k (n div 10) @ [digit n]"

definition iso_year :: "int \<Rightarrow> string" where
  \<comment> \<open>four digits for the years 0 to 9999, a sign and six digits otherwise\<close>
  "iso_year y =
     (if 0 \<le> y \<and> y \<le> 9999 then pad 4 y
      else (if y < 0 then ''-'' else ''+'') @ pad 6 \<bar>y\<bar>)"

definition iso_string :: "int \<Rightarrow> string" where
  "iso_string t =
     (let (y, m, d) = civil_from_days (Day t); ms = TimeWithinDay t
      in iso_year y @ ''-'' @ pad 2 m @ ''-'' @ pad 2 d @ ''T'' @
         pad 2 (ms div 3600000) @ '':'' @ pad 2 (ms div 60000 mod 60) @ '':'' @
         pad 2 (ms div 1000 mod 60) @ ''.'' @ pad 3 (ms mod 1000) @ ''Z'')"

definition toISOString :: "js_date \<Rightarrow> js_thrown + string" where
  \<comment> \<open>throws a RangeError on an invalid date\<close>
  "toISOString dt =
     (case dt of None \<Rightarrow> Inl (Thrown_Error ''Invalid time value'' Absent)
      | Some t \<Rightarrow> Inr (iso_string t))"

section \<open>The collaborators\<close>

text \<open>
  The handlers talk to three outside parties: Clerk (\<^verbatim>\<open>getAuth\<close>, \<^verbatim>\<open>users.getUser\<close>,
  \<^verbatim>\<open>users.getUserOauthAccessToken\<close>), the Google Calendar API (\<^verbatim>\<open>calendar.events.list\<close>)
  and the process (the system clock, the local time zone, \<^verbatim>\<open>process.env.NODE_ENV\<close>).
  A request runs against an environment that fixes what each of them answers. An awaited
  call rejects with a thrown value, or resolves with the object its type promises, or
  resolves with \<^verbatim>\<open>undefined\<close> or \<^verbatim>\<open>null\<close> (a malformed answer, which the types do not
  exclude at run time): then the next property read throws a \<^verbatim>\<open>TypeError\<close>. What the
  handler writes to the console is left out.
\<close>

datatype nullish = Undefined | Null

datatype 'a awaited =
    Rejected js_thrown     \<comment> \<open>the promise rejects: \<^verbatim>\<open>await\<close> throws the value\<close>
  | Resolved 'a            \<comment> \<open>it resolves with an object of the promised type\<close>
  | Nullish nullish        \<comment> \<open>it resolves with \<^verbatim>\<open>undefined\<close> or \<^verbatim>\<open>null\<close>\<close>

definition cannot_read :: "nullish \<Rightarrow> string \<Rightarrow> js_thrown" where
  \<comment> \<open>the \<^verbatim>\<open>TypeError\<close> of reading the property \<open>p\<close> of \<^verbatim>\<open>undefined\<close> or \<^verbatim>\<open>null\<close>\<close>
  "cannot_read n p =
     Thrown_Error
       (''Cannot read properties of ''
        @ (case n of Undefined \<Rightarrow> ''undefined'' | Null \<Rightarrow> ''null'')
        @ '' (reading '' @ [CHR 0x27] @ p @ [CHR 0x27] @ '')'')
       Absent"

record auth_object =
  userId :: "string option"

record external_account =
  account_id :: string
  provider :: string

record user =
  externalAccounts :: "external_account list"

record oauth_token =
  token :: string

record token_response =
  data :: "oauth_token list option"

record event_date_time =
  dateTime :: "string option"
  date :: "string option"

record calendar_item =
  item_id :: "string option"
  summary :: "string option"
  start :: "event_date_time option"
  item_description :: "string option"
  item_location :: "string option"

text \<open>
  Of the answer of \<^verbatim>\<open>calendar.events.list\<close> the handler reads \<^verbatim>\<open>response.data.items\<close> only:
  \<open>list_response\<close> is its \<^verbatim>\<open>data\<close>, and a nullish answer is a \<^verbatim>\<open>response\<close> that is
  \<^verbatim>\<open>undefined\<close> or \<^verbatim>\<open>null\<close>.
\<close>

record list_response =
  items :: "calendar_item list option"

record list_params =
  access_token :: string
  calendarId :: string
  timeMin :: string
  timeMax :: string
  maxResults :: nat
  singleEvents :: bool
  orderBy :: string

record env =
  auth :: "auth_object option"
  getUser :: "string \<Rightarrow> user awaited"
  getUserOauthAccessToken :: "string \<Rightarrow> string \<Rightarrow> token_response awaited"
  events_list :: "list_params \<Rightarrow> list_response awaited"
  clock :: "nat \<Rightarrow> int"
    \<comment> \<open>what the k-th \<^verbatim>\<open>new Date()\<close> of the request reads\<close>
  localTZA :: int
  NODE_ENV :: "string option"

datatype external_call =
    Call_getUser string
  | Call_getUserOauthAccessToken string string
  | Call_events_list list_params

section \<open>Responses\<close>

record event =
  ev_id :: string
  name :: string
  ev_date :: string
  description :: string
  location :: string

datatype body =
    Health_Body string string
      \<comment> \<open>\<^verbatim>\<open>{ status, timestamp }\<close>\<close>
  | Events_Body "event list"
  | Error_Body (error: string) (message: string) (details: "json option")
      \<comment> \<open>\<^verbatim>\<open>{ error, message, details }\<close>; a property that is \<^verbatim>\<open>undefined\<close> is left out of the JSON\<close>
  | Internal_Server_Error
      \<comment> \<open>what Hono answers when a handler throws\<close>

record response =
  status :: nat
  body :: body

definition json :: "body \<Rightarrow> nat \<Rightarrow> response" where
  \<comment> \<open>\<^verbatim>\<open>c.json(body, status)\<close>\<close>
  "json b s = \<lparr>status = s, body = b\<rparr>"

section \<open>The handlers\<close>

definition health :: "env \<Rightarrow> response" where
  "health e =
     (case toISOString (new_Date (clock e 0)) of
        Inl err \<Rightarrow> json Internal_Server_Error 500
      | Inr timestamp \<Rightarrow> json (Health_Body ''ok'' timestamp) 200)"

datatype middleware =
    Next                  \<comment> \<open>it calls \<^verbatim>\<open>next()\<close>: the request reaches the handler\<close>
  | Responds response     \<comment> \<open>it answers itself (the 307 redirect of a handshake)\<close>
  | Throws js_thrown      \<comment> \<open>it throws (a Clerk key is missing, the handshake has no redirect)\<close>

definition get_health :: "middleware \<Rightarrow> env \<Rightarrow> response" where
  \<comment> \<open>the route \<^verbatim>\<open>GET /health\<close> behind \<^verbatim>\<open>.use('*', clerkMiddleware())\<close>; the first argument is what
      the middleware does with the request. The \<^verbatim>\<open>cors()\<close> in front of it only adds headers to
      a GET. A middleware that throws is answered by Hono's error handler.\<close>
  "get_health mw e =
     (case mw of
        Next \<Rightarrow> health e
      | Responds r \<Rightarrow> r
      | Throws err \<Rightarrow> json Internal_Server_Error 500)"

definition start_dateTime :: "calendar_item \<Rightarrow> string option" where
  \<comment> \<open>\<^verbatim>\<open>event.start?.dateTime\<close>\<close>
  "start_dateTime ev = (case start ev of None \<Rightarrow> None | Some s \<Rightarrow> dateTime s)"

definition start_date :: "calendar_item \<Rightarrow> string option" where
  \<comment> \<open>\<^verbatim>\<open>event.start?.date\<close>\<close>
  "start_date ev = (case start ev of None \<Rightarrow> None | Some s \<Rightarrow> date s)"

definition normalize :: "calendar_item \<Rightarrow> event" where
  \<comment> \<open>the function given to \<^verbatim>\<open>items?.map\<close>\<close>
  "normalize ev =
     \<lparr>ev_id = or_default (item_id ev) [],
      name = or_default (summary ev) ''Untitled Event'',
      ev_date = or_default (js_or (start_dateTime ev) (start_date ev)) [],
      description = or_default (item_description ev) [],
      location = or_default (item_location ev) []\<rparr>"

definition events_of :: "list_response \<Rightarrow> event list" where
  \<comment> \<open>\<^verbatim>\<open>response.data.items?.map(...) || []\<close>; an array is truthy, also when empty\<close>
  "events_of r = (case items r of None \<Rightarrow> [] | Some xs \<Rightarrow> map normalize xs)"

definition unauthorized :: response where
  "unauthorized =
     json (Error_Body ''Unauthorized'' ''You must be logged in to view events.'' None) 401"

definition not_connected :: response where
  "not_connected =
     json (Error_Body ''Not Connected''
             ''Please connect your Google account to view calendar events.'' None) 403"

definition no_token :: response where
  "no_token =
     json (Error_Body ''No Token''
             ''Unable to get Google access token. Please reconnect your Google account.'' None) 403"

definition googleAccount :: "user \<Rightarrow> external_account option" where
  \<comment> \<open>\<^verbatim>\<open>user.externalAccounts.find((account) => account.provider === 'oauth_google')\<close>\<close>
  "googleAccount u = find (\<lambda>account. provider account = ''oauth_google'') (externalAccounts u)"

definition date_range :: "env \<Rightarrow> js_date \<times> js_date" where
  \<comment> \<open>\<^verbatim>\<open>oneMonthAgo\<close> and \<^verbatim>\<open>now\<close>: two readings of the clock, the second one moved back\<close>
  "date_range e =
     (let now = new_Date (clock e 0);
          oneMonthAgo = setMonth (localTZA e) (new_Date (clock e 1))
                          (map_option (\<lambda>m. m - 1) (getMonth (localTZA e) now))
      in (oneMonthAgo, now))"

definition list_request :: "string \<Rightarrow> string \<Rightarrow> string \<Rightarrow> list_params" where
  \<comment> \<open>the argument of \<^verbatim>\<open>calendar.events.list\<close>, with the token the client was built on\<close>
  "list_request accessToken tmin tmax =
     \<lparr>access_token = accessToken,
      calendarId = ''primary'',
      timeMin = tmin,
      timeMax = tmax,
      maxResults = 50,
      singleEvents = True,
      orderBy = ''startTime''\<rparr>"

definition try_block :: "env \<Rightarrow> string \<Rightarrow> (js_thrown + response) \<times> external_call list" where
  \<comment> \<open>the body of \<^verbatim>\<open>try\<close>: what it throws or returns, and the outside calls it made, in order\<close>
  "try_block e uid =
     (let calls1 = [Call_getUser uid] in
      case getUser e uid of
        Rejected err \<Rightarrow> (Inl err, calls1)
      | Nullish n \<Rightarrow> (Inl (cannot_read n ''externalAccounts''), calls1)
      | Resolved user \<Rightarrow>
         (case googleAccount user of
            None \<Rightarrow> (Inr not_connected, calls1)
          | Some account \<Rightarrow>
             (let calls2 = calls1 @ [Call_getUserOauthAccessToken uid ''oauth_google''] in
              case getUserOauthAccessToken e uid ''oauth_google'' of
                Rejected err \<Rightarrow> (Inl err, calls2)
              | Nullish n \<Rightarrow> (Inl (cannot_read n ''data''), calls2)
              | Resolved tokenResponse \<Rightarrow>
                 (case data tokenResponse of
                    None \<Rightarrow> (Inr no_token, calls2)
                  | Some [] \<Rightarrow> (Inr no_token, calls2)
                  | Some (first # others) \<Rightarrow>
                     (let accessToken = token first;
                          (oneMonthAgo, now) = date_range e
                      in case toISOString oneMonthAgo of
                           Inl err \<Rightarrow> (Inl err, calls2)
                         | Inr tmin \<Rightarrow>
                            (case toISOString now of
                               Inl err \<Rightarrow> (Inl err, calls2)
                             | Inr tmax \<Rightarrow>
                                (let params = list_request accessToken tmin tmax;
                                     calls3 = calls2 @ [Call_events_list params]
                                 in case events_list e params of
                                      Rejected err \<Rightarrow> (Inl err, calls3)
                                    | Nullish n \<Rightarrow> (Inl (cannot_read n ''data''), calls3)
                                    | Resolved response \<Rightarrow>
                                        (Inr (json (Events_Body (events_of response)) 200),
                                         calls3))))))))"

definition details_of :: "string option \<Rightarrow> js_thrown \<Rightarrow> json option" where
  "details_of node_env err =
     (if node_env = Some ''development''
      then (if has_response err then response_data err else None)
      else None)"

definition catch_block :: "env \<Rightarrow> js_thrown \<Rightarrow> response" where
  "catch_block e err =
     json (Error_Body ''Failed to fetch calendar events''
             (if instanceof_Error err then error_message err else ''Unknown error'')
             (details_of (NODE_ENV e) err)) 500"

definition auth_userId :: "auth_object option \<Rightarrow> string option" where
  \<comment> \<open>\<^verbatim>\<open>auth?.userId\<close>\<close>
  "auth_userId a = (case a of None \<Rightarrow> None | Some x \<Rightarrow> userId x)"

definition api_events_run :: "env \<Rightarrow> response \<times> external_call list" where
  \<comment> \<open>the handler of \<^verbatim>\<open>GET /api/events\<close>: its response and the outside calls it made\<close>
  "api_events_run e =
     (if \<not> truthy (auth_userId (auth e)) then (unauthorized, [])
      else (case try_block e (the (auth_userId (auth e))) of
              (Inl err, calls) \<Rightarrow> (catch_block e err, calls)
            | (Inr r, calls) \<Rightarrow> (r, calls)))"

definition api_events :: "env \<Rightarrow> response" where
  "api_events e = fst (api_events_run e)"

definition external_calls :: "env \<Rightarrow> external_call list" where
  "external_calls e = snd (api_events_run e)"

section \<open>The shape of a timestamp\<close>

definition is_digit :: "char \<Rightarrow> bool" where
  "is_digit c = (c \<in> set ''0123456789'')"

definition digit_value :: "char \<Rightarrow> int" where
  "digit_value c = int (of_char c) - 48"

definition number_at :: "string \<Rightarrow> nat \<Rightarrow> nat \<Rightarrow> int" where
  \<comment> \<open>the number written by the \<open>k\<close> digits from position \<open>i\<close> on\<close>
  "number_at s i k = foldl (\<lambda>acc c. 10 * acc + digit_value c) 0 (take k (drop i s))"

definition is_iso_8601 :: "string \<Rightarrow> bool" where
  \<comment> \<open>the pattern \<^verbatim>\<open>YYYY-MM-DDTHH:mm:ss.sssZ\<close>, with a month, a day and a time of day in range\<close>
  "is_iso_8601 s =
     (length s = 24
      \<and> list_all (\<lambda>i. is_digit (s ! i)) [0, 1, 2, 3, 5, 6, 8, 9, 11, 12, 14, 15, 17, 18, 20, 21, 22]
      \<and> s ! 4 = CHR ''-'' \<and> s ! 7 = CHR ''-'' \<and> s ! 10 = CHR ''T''
      \<and> s ! 13 = CHR '':'' \<and> s ! 16 = CHR '':'' \<and> s ! 19 = CHR ''.'' \<and> s ! 23 = CHR ''Z''
      \<and> 1 \<le> number_at s 5 2 \<and> number_at s 5 2 \<le> 12
      \<and> 1 \<le> number_at s 8 2 \<and> number_at s 8 2 \<le> 31
      \<and> number_at s 11 2 \<le> 23 \<and> number_at s 14 2 \<le> 59 \<and> number_at s 17 2 \<le> 59)"

section \<open>Example environments\<close>

definition demo_user :: user where
  "demo_user =
     \<lparr>externalAccounts =
        [\<lparr>account_id = ''acc_1'', provider = ''oauth_github''\<rparr>,
         \<lparr>account_id = ''acc_2'', provider = ''oauth_google''\<rparr>,
         \<lparr>account_id = ''acc_3'', provider = ''oauth_google''\<rparr>]\<rparr>"

definition github_user :: user where
  "github_user = \<lparr>externalAccounts = [\<lparr>account_id = ''acc_1'', provider = ''oauth_github''\<rparr>]\<rparr>"

definition demo_items :: "calendar_item list" where
  "demo_items =
     [\<lparr>item_id = Some ''e1'', summary = Some ''Meet'',
       start = Some \<lparr>dateTime = Some ''2025-06-01T10:00:00Z'', date = Some ''2025-06-01''\<rparr>,
       item_description = Some ''d'', item_location = Some ''l''\<rparr>,
      \<lparr>item_id = Some ''e2'', summary = None,
       start = Some \<lparr>dateTime = None, date = Some ''2025-06-02''\<rparr>,
       item_description = None, item_location = None\<rparr>,
      \<lparr>item_id = None, summary = Some [], start = None,
       item_description = None, item_location = None\<rparr>]"

definition first_token :: oauth_token where
  "first_token = \<lparr>token = ''ya29.first''\<rparr>"

definition demo_tokens :: token_response where
  "demo_tokens = \<lparr>data = Some [first_token, \<lparr>token = ''ya29.second''\<rparr>]\<rparr>"


definition demo_env :: env where
  \<comment> \<open>a signed-in caller with a Google account, on 2025-06-15T09:30:00Z\<close>
  "demo_env =
     \<lparr>auth = Some \<lparr>userId = Some ''user_1''\<rparr>,
      getUser = (\<lambda>uid. Resolved demo_user),
      getUserOauthAccessToken = (\<lambda>uid p. Resolved demo_tokens),
      events_list = (\<lambda>params. Resolved \<lparr>items = Some demo_items\<rparr>),
      clock = (\<lambda>k. 1749979800000),
      localTZA = 0,
      NODE_ENV = Some ''development''\<rparr>"

definition anonymous_env :: env where
  "anonymous_env = demo_env\<lparr>auth := None\<rparr>"

definition github_env :: env where
  "github_env = demo_env\<lparr>getUser := (\<lambda>uid. Resolved github_user)\<rparr>"

definition tokenless_env :: env where
  "tokenless_env = demo_env\<lparr>getUserOauthAccessToken := (\<lambda>uid p. Resolved \<lparr>data = Some []\<rparr>)\<rparr>"

definition itemless_env :: env where
  "itemless_env = demo_env\<lparr>events_list := (\<lambda>params. Resolved \<lparr>items = None\<rparr>)\<rparr>"






definition keyless :: middleware where
  \<comment> \<open>\<^verbatim>\<open>CLERK_SECRET_KEY\<close> is not set\<close>
  "keyless = Throws (Thrown_Error ''Missing Clerk Secret key'' Absent)"

definition march_env :: env where
  \<comment> \<open>the same caller on 2025-03-31T12:00:00Z\<close>
  "march_env = demo_env\<lparr>clock := (\<lambda>k. 1743422400000)\<rparr>"

section \<open>Facts about the handler\<close>


lemma api_events_run_authenticated:
  assumes "auth_userId (auth e) = Some uid" and "uid \<noteq> []"
  shows "api_events_run e =
           (case try_block e uid of
              (Inl err, calls) \<Rightarrow> (catch_block e err, calls)
            | (Inr r, calls) \<Rightarrow> (r, calls))"
  using assms by (simp add: api_events_run_def truthy_def)

lemma toISOString_now: "toISOString (snd (date_range e)) = Inr (iso_string (clock e 0))"
  by (simp add: date_range_def Let_def toISOString_def new_Date_def)

lemma try_block_listed:
  assumes "getUser e uid = Resolved u" and "googleAccount u = Some acct"
    and "getUserOauthAccessToken e uid ''oauth_google'' = Resolved tr" and "data tr = Some (t # ts)"
    and "toISOString (fst (date_range e)) = Inr tmin"
    and "events_list e (list_request (token t) tmin (iso_string (clock e 0))) = Resolved r"
  shows "try_block e uid =
           (Inr (json (Events_Body (events_of r)) 200),
            [Call_getUser uid, Call_getUserOauthAccessToken uid ''oauth_google'',
             Call_events_list (list_request (token t) tmin (iso_string (clock e 0)))])"
proof -
  obtain lo hi where dr: "date_range e = (lo, hi)" by (cases "date_range e")
  from dr assms(5) have lo: "toISOString lo = Inr tmin" by simp
  from dr toISOString_now [of e] have hi: "toISOString hi = Inr (iso_string (clock e 0))" by simp
  show ?thesis
    using assms(1-4,6) by (simp add: try_block_def Let_def dr lo hi)
qed

lemma try_block_no_account:
  assumes "getUser e uid = Resolved u" and "googleAccount u = None"
  shows "try_block e uid = (Inr not_connected, [Call_getUser uid])"
  using assms by (simp add: try_block_def)

lemma try_block_no_token:
  assumes "getUser e uid = Resolved u" and "googleAccount u = Some acct"
    and "getUserOauthAccessToken e uid ''oauth_google'' = Resolved tr"
    and "data tr = None \<or> data tr = Some []"
  shows "try_block e uid =
           (Inr no_token, [Call_getUser uid, Call_getUserOauthAccessToken uid ''oauth_google''])"
  using assms by (auto simp: try_block_def)

lemma try_block_with_account:
  assumes "getUser e uid = Resolved u" and "googleAccount u = Some acct"
    and "fst (try_block e uid) = Inr r"
  shows "r \<noteq> not_connected"
  using assms
  by (auto simp: try_block_def Let_def not_connected_def no_token_def json_def
           split: awaited.splits sum.splits option.splits list.splits prod.splits)

text \<open>The places where the \<^verbatim>\<open>try\<close> block throws: each awaited call that rejects.\<close>

lemma try_block_getUser_rejected:
  "getUser e uid = Rejected err \<Longrightarrow> fst (try_block e uid) = Inl err"
  by (simp add: try_block_def)

lemma try_block_token_rejected:
  assumes "getUser e uid = Resolved u" and "googleAccount u = Some acct"
    and "getUserOauthAccessToken e uid ''oauth_google'' = Rejected err"
  shows "fst (try_block e uid) = Inl err"
  using assms by (simp add: try_block_def)

lemma try_block_listing_rejected:
  assumes "getUser e uid = Resolved u" and "googleAccount u = Some acct"
    and "getUserOauthAccessToken e uid ''oauth_google'' = Resolved tr" and "data tr = Some (t # ts)"
    and "toISOString (fst (date_range e)) = Inr tmin"
    and "events_list e (list_request (token t) tmin (iso_string (clock e 0))) = Rejected err"
  shows "fst (try_block e uid) = Inl err"
proof -
  obtain lo hi where dr: "date_range e = (lo, hi)" by (cases "date_range e")
  from dr assms(5) have lo: "toISOString lo = Inr tmin" by simp
  from dr toISOString_now [of e] have hi: "toISOString hi = Inr (iso_string (clock e 0))" by simp
  show ?thesis
    using assms(1-4,6) by (simp add: try_block_def Let_def dr lo hi)
qed

lemma try_block_throws_cases:
  assumes "fst (try_block e uid) = Inl err"
  shows "getUser e uid = Rejected err
       \<or> (\<exists>n. getUser e uid = Nullish n \<and> err = cannot_read n ''externalAccounts'')
       \<or> getUserOauthAccessToken e uid ''oauth_google'' = Rejected err
       \<or> (\<exists>n. getUserOauthAccessToken e uid ''oauth_google'' = Nullish n
              \<and> err = cannot_read n ''data'')
       \<or> toISOString (fst (date_range e)) = Inl err
       \<or> (\<exists>p. events_list e p = Rejected err)
       \<or> (\<exists>p n. events_list e p = Nullish n \<and> err = cannot_read n ''data'')"
proof -
  obtain lo hi where dr: "date_range e = (lo, hi)" by (cases "date_range e")
  from dr toISOString_now [of e] have hi: "toISOString hi = Inr (iso_string (clock e 0))" by simp
  show ?thesis
    using assms
    by (auto simp: try_block_def Let_def dr hi
             split: awaited.splits sum.splits option.splits list.splits)
qed


text \<open>Only the first token of the response reaches the calendar client.\<close>

lemma date_range_token_update:
  "date_range (e\<lparr>getUserOauthAccessToken := f\<rparr>) = date_range e"
  by (simp add: date_range_def)

lemma catch_block_token_update:
  "catch_block (e\<lparr>getUserOauthAccessToken := f\<rparr>) err = catch_block e err"
  by (simp add: catch_block_def)

lemma try_block_first_token:
  assumes "getUserOauthAccessToken e uid ''oauth_google'' = Resolved tr" and "data tr = Some (t # ts)"
  shows "try_block e uid =
           try_block (e\<lparr>getUserOauthAccessToken := (\<lambda>u p. Resolved \<lparr>data = Some [t]\<rparr>)\<rparr>) uid"
  using assms
  by (auto simp: try_block_def Let_def date_range_token_update
           split: awaited.splits sum.splits option.splits prod.splits)

lemma try_block_token_passed:
  assumes "getUserOauthAccessToken e uid ''oauth_google'' = Resolved tr" and "data tr = Some (t # ts)"
    and "Call_events_list p \<in> set (snd (try_block e uid))"
  shows "access_token p = token t"
  using assms
  by (auto simp: try_block_def Let_def list_request_def
           split: awaited.splits sum.splits option.splits list.splits prod.splits)

text \<open>The example environments.\<close>

lemma demo_caller: "auth_userId (auth demo_env) = Some ''user_1''"
  by (simp add: demo_env_def auth_userId_def)

lemma demo_getUser: "getUser demo_env ''user_1'' = Resolved demo_user"
  by (simp add: demo_env_def)

lemma demo_googleAccount:
  "googleAccount demo_user = Some \<lparr>account_id = ''acc_2'', provider = ''oauth_google''\<rparr>"
  by (simp add: googleAccount_def demo_user_def)

lemma demo_token: "getUserOauthAccessToken demo_env ''user_1'' ''oauth_google'' = Resolved demo_tokens"
  by (simp add: demo_env_def)

lemma demo_data: "data demo_tokens = Some (first_token # [\<lparr>token = ''ya29.second''\<rparr>])"
  by (simp add: demo_tokens_def)



text \<open>The calendar: a day number falls in a month 1 to 12 and on a day 1 to 31.\<close>

lemma day_of_year_bounds:
  fixes doe :: int
  assumes "0 \<le> doe" "doe \<le> 146096"
  defines "yoe \<equiv> (doe - doe div 1460 + doe div 36524 - doe div 146096) div 365"
  shows "0 \<le> doe - (365 * yoe + yoe div 4 - yoe div 100)
       \<and> doe - (365 * yoe + yoe div 4 - yoe div 100) \<le> 365"
proof (cases "doe = 146096")
  case True
  then show ?thesis by (simp add: yoe_def)
next
  case False
  with assms(2) have n: "doe \<le> 146095" by simp
  define a where "a = doe div 1460"
  define b where "b = doe div 36524"
  define N where "N = doe - a + b"
  have c: "doe div 146096 = 0" using assms(1) n by simp
  have yoe: "yoe = N div 365" by (simp add: yoe_def N_def a_def b_def c)
  have a1: "1460 * a \<le> doe" "doe < 1460 * a + 1460"
    unfolding a_def by simp_all
  have b1: "36524 * b \<le> doe" "doe < 36524 * b + 36524"
    unfolding b_def by simp_all
  have b_range: "0 \<le> b" "b \<le> 3" using b1 assms(1) n by linarith+
  have y1: "365 * yoe \<le> N" "N < 365 * yoe + 365"
    unfolding yoe by simp_all
  have q4: "yoe div 4 = N div 1460"
    unfolding yoe by (simp add: zdiv_zmult2_eq [symmetric])
  have q100: "yoe div 100 = N div 36500"
    unfolding yoe by (simp add: zdiv_zmult2_eq [symmetric])
  have q4_1: "1460 * (N div 1460) \<le> N" "N < 1460 * (N div 1460) + 1460"
    by simp_all
  have N_lo: "36500 * b \<le> N"
  proof -
    from b_range consider "b = 0" | "b = 1" | "b = 2" | "b = 3" by linarith
    then show ?thesis
      using a1 b1 assms(1) unfolding N_def by cases linarith+
  qed
  have N_hi: "N < 36500 * b + 36500"
    using a1 b1 b_range unfolding N_def by linarith
  have "N div 36500 = b"
    by (rule int_div_pos_eq [of N 36500 b "N - 36500 * b"]) (use N_lo N_hi in simp_all)
  with q100 have q100': "yoe div 100 = b" by simp
  have "b \<le> a"
    unfolding a_def b_def using assms(1) by (intro zdiv_mono2) simp_all
  have "a \<le> 100" using a1 n by linarith
  have "N \<le> doe" "doe - 1460 \<le> N"
    using \<open>b \<le> a\<close> \<open>a \<le> 100\<close> b_range unfolding N_def by linarith+
  then have "N div 1460 \<le> a" "a - 1 \<le> N div 1460"
    using q4_1 a1 by linarith+
  with q4 have q4': "yoe div 4 \<le> a" "a - 1 \<le> yoe div 4" by simp_all
  have "doe - (365 * yoe + yoe div 4 - yoe div 100) = (N - 365 * yoe) + (a - yoe div 4)"
    unfolding q100' N_def by simp
  with y1 q4' show ?thesis by linarith
qed

lemma month_day_bounds:
  fixes doy :: int
  assumes "0 \<le> doy" "doy \<le> 365"
  defines "mp \<equiv> (5 * doy + 2) div 153"
  shows "0 \<le> mp \<and> mp \<le> 11
       \<and> 1 \<le> doy - (153 * mp + 2) div 5 + 1 \<and> doy - (153 * mp + 2) div 5 + 1 \<le> 31"
proof -
  have m1: "153 * mp \<le> 5 * doy + 2" "5 * doy + 2 < 153 * mp + 153"
    unfolding mp_def by simp_all
  define e where "e = (153 * mp + 2) div 5"
  have e1: "5 * e \<le> 153 * mp + 2" "153 * mp + 2 < 5 * e + 5"
    unfolding e_def by simp_all
  show ?thesis
    unfolding e_def [symmetric] using m1 e1 assms(1,2) by linarith
qed

lemma civil_from_days_bounds:
  assumes "civil_from_days z = (y, m, d)"
  shows "1 \<le> m \<and> m \<le> 12 \<and> 1 \<le> d \<and> d \<le> 31"
proof -
  define doe where "doe = z + 719468 - (z + 719468) div 146097 * 146097"
  define yoe where "yoe = (doe - doe div 1460 + doe div 36524 - doe div 146096) div 365"
  define doy where "doy = doe - (365 * yoe + yoe div 4 - yoe div 100)"
  define mp where "mp = (5 * doy + 2) div 153"
  have "doe = (z + 719468) mod 146097"
    unfolding doe_def by (simp add: minus_div_mult_eq_mod)
  then have "0 \<le> doe" "doe \<le> 146096" by simp_all
  from day_of_year_bounds [OF this] have doy: "0 \<le> doy" "doy \<le> 365"
    unfolding doy_def yoe_def by blast+
  from month_day_bounds [OF doy]
  have md: "0 \<le> mp" "mp \<le> 11"
    "1 \<le> doy - (153 * mp + 2) div 5 + 1" "doy - (153 * mp + 2) div 5 + 1 \<le> 31"
    unfolding mp_def by blast+
  from assms have "m = (if mp < 10 then mp + 3 else mp - 9) \<and> d = doy - (153 * mp + 2) div 5 + 1"
    unfolding civil_from_days_def Let_def mp_def doy_def yoe_def doe_def
    by (simp only: prod.inject)
  with md show ?thesis by (auto split: if_splits)
qed

text \<open>The digits of a timestamp.\<close>

lemma digit_is_digit: "is_digit (digit n)"
proof -
  have "nat (n mod 10) < length ''0123456789''" by simp
  then show ?thesis
    unfolding is_digit_def digit_def by (rule nth_mem)
qed

lemma digit_value_digit: "digit_value (digit n) = n mod 10"
proof -
  define k where "k = nat (n mod 10)"
  have "k < 10" unfolding k_def by simp
  then have "k = 0 \<or> k = 1 \<or> k = 2 \<or> k = 3 \<or> k = 4 \<or> k = 5 \<or> k = 6 \<or> k = 7 \<or> k = 8 \<or> k = 9"
    by presburger
  then have "int (of_char (''0123456789'' ! k)) - 48 = int k"
    by (elim disjE) simp_all
  moreover have "int k = n mod 10" unfolding k_def by simp
  ultimately show ?thesis by (simp add: digit_value_def digit_def k_def)
qed

lemma two_digits:
  assumes "0 \<le> n" "n < 100"
  shows "10 * digit_value (digit (n div 10)) + digit_value (digit n) = n"
proof -
  have "n div 10 mod 10 = n div 10" using assms by simp
  then show ?thesis by (simp add: digit_value_digit)
qed

lemma pad_2: "pad 2 n = [digit (n div 10), digit n]"
  by (simp add: eval_nat_numeral)

lemma pad_3: "pad 3 n = [digit (n div 10 div 10), digit (n div 10), digit n]"
  by (simp add: eval_nat_numeral)

lemma pad_4:
  "pad 4 n = [digit (n div 10 div 10 div 10), digit (n div 10 div 10), digit (n div 10), digit n]"
  by (simp add: eval_nat_numeral)

lemma time_of_day_bounds:
  fixes t :: int
  defines "ms \<equiv> TimeWithinDay t"
  shows "0 \<le> ms div 3600000 \<and> ms div 3600000 \<le> 23
       \<and> 0 \<le> ms div 60000 mod 60 \<and> ms div 60000 mod 60 \<le> 59
       \<and> 0 \<le> ms div 1000 mod 60 \<and> ms div 1000 mod 60 \<le> 59"
proof -
  define hh where "hh = ms div 3600000"
  define mi where "mi = ms div 60000 mod 60"
  define ss where "ss = ms div 1000 mod 60"
  have ms: "0 \<le> ms" "ms < 86400000"
    by (simp_all add: ms_def TimeWithinDay_def msPerDay_def)
  have "3600000 * hh \<le> ms" unfolding hh_def by simp
  with ms have hh: "hh \<le> 23" by linarith
  have "0 \<le> hh" unfolding hh_def using ms by simp
  moreover have "0 \<le> mi" "mi < 60" "0 \<le> ss" "ss < 60"
    unfolding mi_def ss_def by simp_all
  ultimately have "0 \<le> hh \<and> hh \<le> 23 \<and> 0 \<le> mi \<and> mi \<le> 59 \<and> 0 \<le> ss \<and> ss \<le> 59"
    using hh by linarith
  then show ?thesis unfolding hh_def mi_def ss_def .
qed


lemma iso_string_explicit:
  assumes c: "civil_from_days (Day t) = (y, m, d)" and y: "0 \<le> y" "y \<le> 9999"
  shows "iso_string t =
      pad 4 y @ ''-'' @ pad 2 m @ ''-'' @ pad 2 d @ ''T'' @
      pad 2 (TimeWithinDay t div 3600000) @ '':'' @
      pad 2 (TimeWithinDay t div 60000 mod 60) @ '':'' @
      pad 2 (TimeWithinDay t div 1000 mod 60) @ ''.'' @
      pad 3 (TimeWithinDay t mod 1000) @ ''Z''"
  using y by (simp only: iso_string_def c iso_year_def Let_def prod.case if_True simp_thms)

lemma is_iso_8601_digits:
  assumes "1 \<le> m" "m \<le> 12" "1 \<le> d" "d \<le> 31"
    and "0 \<le> hh" "hh \<le> 23" "0 \<le> mi" "mi \<le> 59" "0 \<le> ss" "ss \<le> 59"
  shows "is_iso_8601
           (pad 4 y @ ''-'' @ pad 2 m @ ''-'' @ pad 2 d @ ''T'' @
            pad 2 hh @ '':'' @ pad 2 mi @ '':'' @ pad 2 ss @ ''.'' @ pad 3 ms @ ''Z'')"
proof -
  have two: "10 * digit_value (digit (m div 10)) + digit_value (digit m) = m"
    "10 * digit_value (digit (d div 10)) + digit_value (digit d) = d"
    "10 * digit_value (digit (hh div 10)) + digit_value (digit hh) = hh"
    "10 * digit_value (digit (mi div 10)) + digit_value (digit mi) = mi"
    "10 * digit_value (digit (ss div 10)) + digit_value (digit ss) = ss"
    using assms by (simp_all add: two_digits)
  show ?thesis
    using assms
    by (simp add: is_iso_8601_def pad_2 pad_3 pad_4 digit_is_digit number_at_def two)
qed

lemma iso_string_shape:
  assumes "0 \<le> YearFromTime t" and "YearFromTime t \<le> 9999"
  shows "is_iso_8601 (iso_string t)"
proof -
  obtain y m d where c: "civil_from_days (Day t) = (y, m, d)"
    by (cases "civil_from_days (Day t)") auto
  with assms have y: "0 \<le> y" "y \<le> 9999" by (simp_all add: YearFromTime_def)
  from civil_from_days_bounds [OF c] have md: "1 \<le> m" "m \<le> 12" "1 \<le> d" "d \<le> 31"
    by blast+
  from time_of_day_bounds [of t]
  have tod: "0 \<le> TimeWithinDay t div 3600000" "TimeWithinDay t div 3600000 \<le> 23"
    "0 \<le> TimeWithinDay t div 60000 mod 60" "TimeWithinDay t div 60000 mod 60 \<le> 59"
    "0 \<le> TimeWithinDay t div 1000 mod 60" "TimeWithinDay t div 1000 mod 60 \<le> 59"
    by blast+
  show ?thesis
    unfolding iso_string_explicit [OF c y]
    by (rule is_iso_8601_digits [OF md tod])
qed

section \<open>The successful listing\<close>



text \<open>
  C7. When the answer of the calendar has no \<open>items\<close> at all, \<^verbatim>\<open>GET /api/events\<close> answers
  200 with the empty array.
\<close>

theorem events_empty_without_items:
  assumes "auth_userId (auth e) = Some uid" and "uid \<noteq> []"
    and "getUser e uid = Resolved u" and "googleAccount u = Some acct"
    and "getUserOauthAccessToken e uid ''oauth_google'' = Resolved tr" and "data tr = Some (t # ts)"
    and "toISOString (fst (date_range e)) = Inr tmin"
    and "events_list e (list_request (token t) tmin (iso_string (clock e 0))) = Resolved r"
    and "items r = None"
  shows "api_events e = \<lparr>status = 200, body = Events_Body []\<rparr>"
proof -
  have "api_events e = json (Events_Body (events_of r)) 200"
    using api_events_run_authenticated [OF assms(1,2)] try_block_listed [OF assms(3-8)]
    by (simp add: api_events_def)
  with assms(9) show ?thesis
    by (simp add: json_def events_of_def)
qed

theorem events_empty_without_items_witness:
  "api_events itemless_env = \<lparr>status = 200, body = Events_Body []\<rparr>"
proof -
  have caller: "auth_userId (auth itemless_env) = Some ''user_1''"
    by (simp add: itemless_env_def demo_env_def auth_userId_def)
  have usr: "getUser itemless_env ''user_1'' = Resolved demo_user"
    by (simp add: itemless_env_def demo_env_def)
  have tok: "getUserOauthAccessToken itemless_env ''user_1'' ''oauth_google'' = Resolved demo_tokens"
    by (simp add: itemless_env_def demo_env_def)
  have lower: "toISOString (fst (date_range itemless_env)) = Inr ''2025-05-15T09:30:00.000Z''"
    by code_simp
  have listed: "events_list itemless_env
      (list_request (token first_token) ''2025-05-15T09:30:00.000Z''
         (iso_string (clock itemless_env 0))) = Resolved \<lparr>items = None\<rparr>"
    by (simp add: itemless_env_def)
  show ?thesis
    using events_empty_without_items [OF caller _ usr demo_googleAccount tok demo_data lower listed]
    by simp
qed

text \<open>
  C9. When an item has both \<open>start.dateTime\<close> and \<open>start.date\<close>, the event's date is
  \<open>start.dateTime\<close>; \<open>start.date\<close> is used only when \<open>start.dateTime\<close> is absent or falsy
  (the empty string).
\<close>

theorem dateTime_precedes_date:
  assumes "start x = Some s"
  shows "(truthy (dateTime s) \<longrightarrow> ev_date (normalize x) = the (dateTime s))
       \<and> (\<not> truthy (dateTime s) \<longrightarrow>
            ev_date (normalize x) = (case date s of None \<Rightarrow> [] | Some v \<Rightarrow> v))"
  using assms
  by (auto simp: normalize_def js_or_def or_default_def truthy_def start_dateTime_def
        start_date_def split: option.splits)

theorem dateTime_precedes_date_witness:
  "ev_date (normalize (demo_items ! 0)) = ''2025-06-01T10:00:00Z''
 \<and> ev_date (normalize (demo_items ! 1)) = ''2025-06-02''"
  using dateTime_precedes_date
          [of "demo_items ! 0" "\<lparr>dateTime = Some ''2025-06-01T10:00:00Z'', date = Some ''2025-06-01''\<rparr>"]
        dateTime_precedes_date
          [of "demo_items ! 1" "\<lparr>dateTime = None, date = Some ''2025-06-02''\<rparr>"]
  by (simp add: demo_items_def truthy_def)

section \<open>The refusals\<close>

text \<open>
  C4. A request without a valid caller credential (\<^verbatim>\<open>getAuth\<close> gives no user id) is answered
  401 with the category \<^verbatim>\<open>Unauthorized\<close> and a message telling the caller to log in, and
  the handler makes no outside call at all: no identity lookup, no token exchange, no
  calendar call.
\<close>

theorem unauthorized_before_any_call:
  assumes "\<not> truthy (auth_userId (auth e))"
  shows "api_events e =
           \<lparr>status = 401,
            body = Error_Body ''Unauthorized'' ''You must be logged in to view events.'' None\<rparr>
       \<and> external_calls e = []"
  using assms
  by (simp add: api_events_def external_calls_def api_events_run_def unauthorized_def json_def)

theorem unauthorized_before_any_call_witness:
  "api_events anonymous_env =
     \<lparr>status = 401,
      body = Error_Body ''Unauthorized'' ''You must be logged in to view events.'' None\<rparr>
 \<and> external_calls anonymous_env = []"
  using unauthorized_before_any_call [of anonymous_env]
  by (simp add: anonymous_env_def auth_userId_def truthy_def)

text \<open>
  C5. For a signed-in caller whose user record has no external account of the provider
  \<^verbatim>\<open>oauth_google\<close>, \<^verbatim>\<open>GET /api/events\<close> answers 403 with the category \<^verbatim>\<open>Not Connected\<close>.
  When several accounts match, the lookup gives the first one of the list, and the answer
  is not \<^verbatim>\<open>Not Connected\<close>.
\<close>

theorem not_connected_without_google_account:
  assumes "auth_userId (auth e) = Some uid" and "uid \<noteq> []"
    and "getUser e uid = Resolved u"
  shows "((\<forall>a \<in> set (externalAccounts u). provider a \<noteq> ''oauth_google'') \<longrightarrow>
            api_events e =
              \<lparr>status = 403,
               body = Error_Body ''Not Connected''
                 ''Please connect your Google account to view calendar events.'' None\<rparr>)
       \<and> (\<forall>pre a post.
            externalAccounts u = pre @ a # post
            \<and> (\<forall>b \<in> set pre. provider b \<noteq> ''oauth_google'')
            \<and> provider a = ''oauth_google'' \<longrightarrow>
            googleAccount u = Some a
            \<and> api_events e \<noteq>
                \<lparr>status = 403,
                 body = Error_Body ''Not Connected''
                   ''Please connect your Google account to view calendar events.'' None\<rparr>)"
proof (intro conjI allI impI)
  assume "\<forall>a \<in> set (externalAccounts u). provider a \<noteq> ''oauth_google''"
  then have "googleAccount u = None"
    by (simp add: googleAccount_def find_None_iff)
  then show "api_events e =
      \<lparr>status = 403,
       body = Error_Body ''Not Connected''
         ''Please connect your Google account to view calendar events.'' None\<rparr>"
    using api_events_run_authenticated [OF assms(1,2)] try_block_no_account [OF assms(3)]
    by (simp add: api_events_def not_connected_def json_def)
next
  fix pre a post
  assume h: "externalAccounts u = pre @ a # post
            \<and> (\<forall>b \<in> set pre. provider b \<noteq> ''oauth_google'')
            \<and> provider a = ''oauth_google''"
  then show ga: "googleAccount u = Some a"
    by (auto simp: googleAccount_def find_Some_iff nth_append intro!: exI [of _ "length pre"])
  show "api_events e \<noteq>
      \<lparr>status = 403,
       body = Error_Body ''Not Connected''
         ''Please connect your Google account to view calendar events.'' None\<rparr>"
  proof (cases "try_block e uid")
    case (Pair res calls)
    show ?thesis
    proof (cases res)
      case (Inl err)
      with Pair api_events_run_authenticated [OF assms(1,2)]
      show ?thesis by (simp add: api_events_def catch_block_def json_def)
    next
      case (Inr r)
      with Pair have "r \<noteq> not_connected"
        using try_block_with_account [OF assms(3) ga, of r] by simp
      with Pair Inr api_events_run_authenticated [OF assms(1,2)]
      show ?thesis by (simp add: api_events_def not_connected_def json_def)
    qed
  qed
qed

theorem not_connected_without_google_account_witness:
  "api_events github_env =
     \<lparr>status = 403,
      body = Error_Body ''Not Connected''
        ''Please connect your Google account to view calendar events.'' None\<rparr>
 \<and> googleAccount demo_user = Some \<lparr>account_id = ''acc_2'', provider = ''oauth_google''\<rparr>
 \<and> api_events demo_env \<noteq>
     \<lparr>status = 403,
      body = Error_Body ''Not Connected''
        ''Please connect your Google account to view calendar events.'' None\<rparr>"
proof -
  have caller: "auth_userId (auth github_env) = Some ''user_1''"
    by (simp add: github_env_def demo_env_def auth_userId_def)
  have usr: "getUser github_env ''user_1'' = Resolved github_user"
    by (simp add: github_env_def)
  have none: "\<forall>a \<in> set (externalAccounts github_user). provider a \<noteq> ''oauth_google''"
    by (simp add: github_user_def)
  have split: "externalAccounts demo_user =
      [\<lparr>account_id = ''acc_1'', provider = ''oauth_github''\<rparr>]
      @ \<lparr>account_id = ''acc_2'', provider = ''oauth_google''\<rparr>
      # [\<lparr>account_id = ''acc_3'', provider = ''oauth_google''\<rparr>]
    \<and> (\<forall>b \<in> set [\<lparr>account_id = ''acc_1'', provider = ''oauth_github''\<rparr>].
          provider b \<noteq> ''oauth_google'')
    \<and> provider \<lparr>account_id = ''acc_2'', provider = ''oauth_google''\<rparr> = ''oauth_google''"
    by (simp add: demo_user_def)
  from not_connected_without_google_account [OF caller _ usr] none
  have first: "api_events github_env =
     \<lparr>status = 403,
      body = Error_Body ''Not Connected''
        ''Please connect your Google account to view calendar events.'' None\<rparr>"
    by simp
  from not_connected_without_google_account [OF demo_caller _ demo_getUser] split
  have "googleAccount demo_user = Some \<lparr>account_id = ''acc_2'', provider = ''oauth_google''\<rparr>
      \<and> api_events demo_env \<noteq>
          \<lparr>status = 403,
           body = Error_Body ''Not Connected''
             ''Please connect your Google account to view calendar events.'' None\<rparr>"
    by blast
  with first show ?thesis by simp
qed

text \<open>
  C6. For a signed-in caller with a Google account, when the token response has no token
  data (\<open>data\<close> missing or empty), \<^verbatim>\<open>GET /api/events\<close> answers 403 with the category
  \<^verbatim>\<open>No Token\<close>. When \<open>data\<close> is not empty, only its first token is used: the run is the
  one of a response holding that token alone, and every calendar call carries it.
\<close>

theorem no_token_without_token_data:
  assumes "auth_userId (auth e) = Some uid" and "uid \<noteq> []"
    and "getUser e uid = Resolved u" and "googleAccount u = Some acct"
    and "getUserOauthAccessToken e uid ''oauth_google'' = Resolved tr"
  shows "(data tr = None \<or> data tr = Some [] \<longrightarrow>
            api_events e =
              \<lparr>status = 403,
               body = Error_Body ''No Token''
                 ''Unable to get Google access token. Please reconnect your Google account.''
                 None\<rparr>)
       \<and> (\<forall>t ts. data tr = Some (t # ts) \<longrightarrow>
            api_events_run e =
              api_events_run (e\<lparr>getUserOauthAccessToken := (\<lambda>u p. Resolved \<lparr>data = Some [t]\<rparr>)\<rparr>)
            \<and> (\<forall>p. Call_events_list p \<in> set (external_calls e) \<longrightarrow> access_token p = token t))"
proof (intro conjI allI impI)
  assume "data tr = None \<or> data tr = Some []"
  then show "api_events e =
      \<lparr>status = 403,
       body = Error_Body ''No Token''
         ''Unable to get Google access token. Please reconnect your Google account.'' None\<rparr>"
    using api_events_run_authenticated [OF assms(1,2)] try_block_no_token [OF assms(3-5)]
    by (simp add: api_events_def no_token_def json_def)
next
  fix t ts
  assume d: "data tr = Some (t # ts)"
  let ?e' = "e\<lparr>getUserOauthAccessToken := (\<lambda>u p. Resolved \<lparr>data = Some [t]\<rparr>)\<rparr>"
  have "auth_userId (auth ?e') = Some uid" using assms(1) by simp
  from api_events_run_authenticated [OF this assms(2)]
       api_events_run_authenticated [OF assms(1,2)]
       try_block_first_token [OF assms(5) d]
  show "api_events_run e = api_events_run ?e'"
    by (simp add: catch_block_token_update split: prod.splits sum.splits)
next
  fix t ts p
  assume d: "data tr = Some (t # ts)"
    and c: "Call_events_list p \<in> set (external_calls e)"
  have "snd (api_events_run e) = snd (try_block e uid)"
    using api_events_run_authenticated [OF assms(1,2)]
    by (simp split: prod.splits sum.splits)
  with c have "Call_events_list p \<in> set (snd (try_block e uid))"
    by (simp add: external_calls_def)
  then show "access_token p = token t"
    using try_block_token_passed [OF assms(5) d] by simp
qed

theorem no_token_without_token_data_witness:
  "api_events tokenless_env =
     \<lparr>status = 403,
      body = Error_Body ''No Token''
        ''Unable to get Google access token. Please reconnect your Google account.'' None\<rparr>
 \<and> api_events_run demo_env =
     api_events_run (demo_env\<lparr>getUserOauthAccessToken := (\<lambda>u p. Resolved \<lparr>data = Some [first_token]\<rparr>)\<rparr>)
 \<and> Call_events_list
       (list_request ''ya29.first'' ''2025-05-15T09:30:00.000Z'' ''2025-06-15T09:30:00.000Z'')
     \<in> set (external_calls demo_env)
 \<and> access_token
       (list_request ''ya29.first'' ''2025-05-15T09:30:00.000Z'' ''2025-06-15T09:30:00.000Z'')
     = token first_token"
proof -
  have caller: "auth_userId (auth tokenless_env) = Some ''user_1''"
    by (simp add: tokenless_env_def demo_env_def auth_userId_def)
  have usr: "getUser tokenless_env ''user_1'' = Resolved demo_user"
    by (simp add: tokenless_env_def demo_env_def)
  have tok: "getUserOauthAccessToken tokenless_env ''user_1'' ''oauth_google''
      = Resolved \<lparr>data = Some []\<rparr>"
    by (simp add: tokenless_env_def)
  have called: "Call_events_list
       (list_request ''ya29.first'' ''2025-05-15T09:30:00.000Z'' ''2025-06-15T09:30:00.000Z'')
     \<in> set (external_calls demo_env)"
    by code_simp
  from no_token_without_token_data [OF caller _ usr demo_googleAccount tok]
  have first: "api_events tokenless_env =
     \<lparr>status = 403,
      body = Error_Body ''No Token''
        ''Unable to get Google access token. Please reconnect your Google account.'' None\<rparr>"
    by simp
  from no_token_without_token_data [OF demo_caller _ demo_getUser demo_googleAccount demo_token]
       demo_data
  have "api_events_run demo_env =
     api_events_run (demo_env\<lparr>getUserOauthAccessToken := (\<lambda>u p. Resolved \<lparr>data = Some [first_token]\<rparr>)\<rparr>)
     \<and> (\<forall>p. Call_events_list p \<in> set (external_calls demo_env) \<longrightarrow>
          access_token p = token first_token)"
    by blast
  with first called show ?thesis by blast
qed

section \<open>The failures\<close>





section \<open>The health check\<close>

lemma health_handler:
  "health e = \<lparr>status = 200, body = Health_Body ''ok'' (iso_string (clock e 0))\<rparr>"
  by (simp add: health_def toISOString_def new_Date_def json_def)

text \<open>
  C8. The claim: \<^verbatim>\<open>GET /health\<close> always answers 200. The route lies behind the Clerk
  middleware, which is mounted on every path: when the middleware throws (no Clerk secret
  key is set) the route answers 500, and when it answers itself (the redirect of a
  handshake) the route answers what the middleware answers.
\<close>

theorem health_keyless_is_500:
  "get_health keyless anonymous_env = \<lparr>status = 500, body = Internal_Server_Error\<rparr>
 \<and> status (get_health keyless anonymous_env) \<noteq> 200"
  by (simp add: get_health_def keyless_def json_def)

text \<open>
  C8, amended. Whenever the Clerk middleware passes the request on, \<^verbatim>\<open>GET /health\<close> answers
  200 with the status \<^verbatim>\<open>ok\<close> and the current time as the timestamp, whoever calls: the
  handler asks for no authentication and its answer does not depend on the caller's
  credentials. In the years 0 to 9999 the timestamp has the ISO 8601 pattern
  \<^verbatim>\<open>YYYY-MM-DDTHH:mm:ss.sssZ\<close>, with a month from 01 to 12, a day from 01 to 31 and a time of
  day up to 23:59:59. When the middleware answers itself, its answer is the route's; when
  it throws, the route answers 500.
\<close>

theorem health_ok_behind_middleware:
  "get_health Next e = \<lparr>status = 200, body = Health_Body ''ok'' (iso_string (clock e 0))\<rparr>
 \<and> get_health Next (e\<lparr>auth := a\<rparr>) = get_health Next e
 \<and> (0 \<le> YearFromTime (clock e 0) \<and> YearFromTime (clock e 0) \<le> 9999 \<longrightarrow>
      is_iso_8601 (iso_string (clock e 0)))
 \<and> get_health (Responds r) e = r
 \<and> get_health (Throws err) e = \<lparr>status = 500, body = Internal_Server_Error\<rparr>"
  by (simp add: get_health_def health_handler iso_string_shape json_def)

theorem health_ok_behind_middleware_witness:
  "get_health Next anonymous_env =
     \<lparr>status = 200, body = Health_Body ''ok'' ''2025-06-15T09:30:00.000Z''\<rparr>
 \<and> get_health Next demo_env = get_health Next anonymous_env
 \<and> is_iso_8601 ''2025-06-15T09:30:00.000Z''"
proof -
  have stamp: "iso_string (clock anonymous_env 0) = ''2025-06-15T09:30:00.000Z''"
    by code_simp
  have year: "YearFromTime (clock anonymous_env 0) = 2025"
    by code_simp
  have "get_health Next (anonymous_env\<lparr>auth := auth demo_env\<rparr>) = get_health Next demo_env"
    by (simp add: anonymous_env_def)
  with health_ok_behind_middleware [of anonymous_env "auth demo_env"] stamp year show ?thesis
    by simp
qed

section \<open>The time window\<close>

text \<open>
  C3. The claim: the window given to the calendar always spans one calendar month ending
  now, and a call on March 31 gets a lower bound in the month before. The handler moves a
  second reading of the clock to the month before by \<^verbatim>\<open>setMonth(now.getMonth() - 1)\<close>,
  which keeps the day of the month and carries a day that the month before does not have
  into the next month. On 2025-03-31T12:00:00Z it asks for February 31 and gets
  2025-03-03T12:00:00Z: the lower bound lies in March itself, 28 days before the call.
\<close>

theorem march_31_window:
  "external_calls march_env =
     [Call_getUser ''user_1'',
      Call_getUserOauthAccessToken ''user_1'' ''oauth_google'',
      Call_events_list
        \<lparr>access_token = ''ya29.first'', calendarId = ''primary'',
         timeMin = ''2025-03-03T12:00:00.000Z'', timeMax = ''2025-03-31T12:00:00.000Z'',
         maxResults = 50, singleEvents = True, orderBy = ''startTime''\<rparr>]
 \<and> map_option MonthFromTime (fst (date_range march_env)) = Some 2
 \<and> map_option MonthFromTime (snd (date_range march_env)) = Some 2
 \<and> map_option Day (snd (date_range march_env)) = Some 20178
 \<and> map_option Day (fst (date_range march_env)) = Some (20178 - 28)"
  by code_simp

end
